theory Spec2Isabelle
  imports Main
begin

section \<open>Data model (almoxarifado/models.py)\<close>

text \<open>
  Python integers are unbounded, so the quantities are \<^typ>\<open>int\<close>. A
  \<^verbatim>\<open>PositiveIntegerField\<close> attribute of an instance in memory holds whatever
  integer was assigned to it. Points in time are natural numbers. Primary keys are
  natural numbers.
\<close>

type_synonym datetime = nat

text \<open>
  \<^verbatim>\<open>class Produto\<close> (lines 72-95). The instances handled here were read from the
  store, so they carry their primary key \<open>pk\<close>. \<open>preco_unitario\<close>, a decimal with two
  places, is counted in hundredths.
\<close>

record produto =
  pk :: nat
  codigo :: string
  nome :: string
  descricao :: string
  categoria :: "nat option"
  instituicao :: nat
  quantidade_minima :: int
  quantidade_atual :: int
  preco_unitario :: int
  ativo :: bool
  data_criacao :: datetime
  data_atualizacao :: datetime

text \<open>
  \<^verbatim>\<open>class Movimentacao\<close> (lines 98-144), as an instance in memory: \<open>produto\<close> is the
  related \<^verbatim>\<open>Produto\<close> instance itself, a copy of the stored row made when it was read.
  \<open>mov_pk\<close> and \<open>data_movimentacao\<close> are \<open>None\<close> until the instance is saved for the
  first time. \<open>tipo\<close> is a \<^verbatim>\<open>CharField\<close>: any string, its \<^verbatim>\<open>choices\<close> are not checked
  by \<^verbatim>\<open>save()\<close>.
\<close>

record movimentacao =
  mov_pk :: "nat option"
  produto :: produto
  tipo :: string
  quantidade :: int
  motivo :: string
  funcionario :: "nat option"
  data_movimentacao :: "datetime option"
  observacoes :: string

text \<open>A stored movement: the row of the table, with the product as a foreign key.\<close>

record movimentacao_row =
  row_id :: nat
  row_produto_id :: nat
  row_tipo :: string
  row_quantidade :: int
  row_motivo :: string
  row_funcionario_id :: "nat option"
  row_data_movimentacao :: "datetime option"
  row_observacoes :: string

text \<open>
  The store: the product table by primary key, the movement table in insertion order,
  and the primary keys of the employees in the order of \<^verbatim>\<open>Funcionario.Meta.ordering\<close>.
  The constraints a database backend adds to the columns (not null, \<open>quantidade >= 0\<close>,
  the range of an integer column) are outside the repository and are not modelled:
  \<^verbatim>\<open>save()\<close> writes the fields of the instance as they are.
\<close>

record database =
  produtos :: "nat \<rightharpoonup> produto"
  movimentacoes :: "movimentacao_row list"
  funcionarios :: "nat list"

text \<open>
  The exceptions of the code modelled here: Python's built-in \<^verbatim>\<open>ValueError\<close> with its
  message (models.py line 137) and \<^verbatim>\<open>Produto.DoesNotExist\<close> (views, lines 128 and 213).
  The repository defines no exception class of its own.
\<close>

datatype exception = ValueError string | Produto_DoesNotExist

subsection \<open>Produto.esta_com_estoque_baixo (lines 93-95)\<close>

definition esta_com_estoque_baixo :: "produto \<Rightarrow> bool" where
  "esta_com_estoque_baixo p = (quantidade_atual p \<le> quantidade_minima p)"

subsection \<open>Model.save()\<close>

text \<open>
  \<^verbatim>\<open>self.produto.save()\<close>: the row with the instance's primary key is replaced by the
  instance (or inserted when there is none). \<open>data_atualizacao\<close> has \<^verbatim>\<open>auto_now\<close>, so it is
  set at every save; \<open>data_criacao\<close> has \<^verbatim>\<open>auto_now_add\<close>, so it is set when the row is
  inserted.
\<close>

definition produto_save :: "datetime \<Rightarrow> produto \<Rightarrow> database \<Rightarrow> produto \<times> database" where
  "produto_save now p db =
     (let p' = p\<lparr>data_atualizacao := now,
                  data_criacao := (if produtos db (pk p) = None then now else data_criacao p)\<rparr>
      in (p', db\<lparr>produtos := (produtos db)(pk p \<mapsto> p')\<rparr>))"

text \<open>The row written for a movement instance under primary key \<open>i\<close>.\<close>

definition to_row :: "nat \<Rightarrow> movimentacao \<Rightarrow> movimentacao_row" where
  "to_row i m =
     \<lparr>row_id = i, row_produto_id = pk (produto m), row_tipo = tipo m,
      row_quantidade = quantidade m, row_motivo = motivo m,
      row_funcionario_id = funcionario m, row_data_movimentacao = data_movimentacao m,
      row_observacoes = observacoes m\<rparr>"

text \<open>The automatic primary key of a new row: one more than the largest in the table.\<close>

definition next_id :: "movimentacao_row list \<Rightarrow> nat" where
  "next_id rs = Suc (fold max (map row_id rs) 0)"

text \<open>
  \<^verbatim>\<open>self.save()\<close> on a movement. Without a primary key the instance is inserted: it
  receives the next key and, by \<^verbatim>\<open>auto_now_add\<close>, its \<open>data_movimentacao\<close>. With a primary
  key the stored row of that key is overwritten with the fields of the instance; when no
  row has that key the instance is inserted under it.
\<close>

definition movimentacao_save ::
  "datetime \<Rightarrow> movimentacao \<Rightarrow> database \<Rightarrow> movimentacao \<times> database" where
  "movimentacao_save now m db =
     (case mov_pk m of
        None \<Rightarrow>
          (let i = next_id (movimentacoes db);
               m' = m\<lparr>mov_pk := Some i, data_movimentacao := Some now\<rparr>
           in (m', db\<lparr>movimentacoes := movimentacoes db @ [to_row i m']\<rparr>))
      | Some i \<Rightarrow>
          (if i \<in> set (map row_id (movimentacoes db))
           then (m, db\<lparr>movimentacoes :=
                        map (\<lambda>r. if row_id r = i then to_row i m else r) (movimentacoes db)\<rparr>)
           else (let m' = m\<lparr>data_movimentacao := Some now\<rparr>
                 in (m', db\<lparr>movimentacoes := movimentacoes db @ [to_row i m']\<rparr>))))"

subsection \<open>Movimentacao.salvar_e_atualizar_estoque (lines 119-144)\<close>

text \<open>
  Lines 130-140: the change of \<^verbatim>\<open>self.produto.quantidade_atual\<close> in memory, or the
  \<^verbatim>\<open>ValueError\<close> of line 137. The branches are tried in the order of the source; a
  \<open>tipo\<close> that matches none of them falls through with the product as it was.
\<close>

definition atualizar_estoque :: "movimentacao \<Rightarrow> exception + movimentacao" where
  "atualizar_estoque m =
     (if tipo m = ''entrada'' then
        Inr (m\<lparr>produto := (produto m)\<lparr>quantidade_atual :=
               quantidade_atual (produto m) + quantidade m\<rparr>\<rparr>)
      else if tipo m = ''saida'' then
        (if quantidade_atual (produto m) \<ge> quantidade m then
           Inr (m\<lparr>produto := (produto m)\<lparr>quantidade_atual :=
                  quantidade_atual (produto m) - quantidade m\<rparr>\<rparr>)
         else Inl (ValueError ''Quantidade insuficiente em estoque''))
      else if tipo m = ''ajuste'' then
        Inr (m\<lparr>produto := (produto m)\<lparr>quantidade_atual := quantidade m\<rparr>\<rparr>)
      else Inr m)"

text \<open>
  The whole method, with the store after each of its two writes (lines 143 and 144) in
  the order they happen. The result is the exception raised or the normal return, the
  instance as the method leaves it, and the list of stores written. When line 137
  raises, nothing was assigned and nothing is written.
\<close>

definition salvar_passos ::
  "datetime \<Rightarrow> datetime \<Rightarrow> movimentacao \<Rightarrow> database
     \<Rightarrow> (exception + unit) \<times> movimentacao \<times> database list" where
  "salvar_passos t1 t2 m db =
     (case atualizar_estoque m of
        Inl e \<Rightarrow> (Inl e, m, [])
      | Inr m1 \<Rightarrow>
          (let (p2, db1) = produto_save t1 (produto m1) db;
               (m3, db2) = movimentacao_save t2 (m1\<lparr>produto := p2\<rparr>) db1
           in (Inr (), m3, [db1, db2])))"

text \<open>The method as a transition of the store: the last store written, if any.\<close>

definition salvar_e_atualizar_estoque ::
  "datetime \<Rightarrow> datetime \<Rightarrow> movimentacao \<Rightarrow> database
     \<Rightarrow> (exception + unit) \<times> movimentacao \<times> database" where
  "salvar_e_atualizar_estoque t1 t2 m db =
     (case salvar_passos t1 t2 m db of (r, m', dbs) \<Rightarrow> (r, m', last (db # dbs)))"

section \<open>The views that record movements (almoxarifado/views/movimentacao_views.py)\<close>

text \<open>
  The views are modelled from the point where the form fields have passed the checks of
  lines 89-102 and 171-184 (\<^verbatim>\<open>if not erros:\<close>). A \<open>pedido\<close> holds those fields and the
  time of the request.
\<close>

record pedido =
  ped_hora :: datetime
  ped_produto :: nat
  ped_quantidade :: int
  ped_motivo :: string
  ped_observacoes :: string

text \<open>\<^verbatim>\<open>Produto.objects.get(pk=produto_id)\<close> (lines 106 and 188).\<close>

definition Produto_objects_get :: "nat \<Rightarrow> database \<Rightarrow> exception + produto" where
  "Produto_objects_get i db =
     (case produtos db i of None \<Rightarrow> Inl Produto_DoesNotExist | Some p \<Rightarrow> Inr p)"

text \<open>\<^verbatim>\<open>Funcionario.objects.first()\<close> (lines 110 and 195).\<close>

definition primeiro_funcionario :: "database \<Rightarrow> nat option" where
  "primeiro_funcionario db = (case funcionarios db of [] \<Rightarrow> None | f # _ \<Rightarrow> Some f)"

text \<open>The constructor call of lines 115-122 and 200-207: a new instance, not yet saved.\<close>

definition movimentacao_do_pedido ::
  "produto \<Rightarrow> string \<Rightarrow> nat option \<Rightarrow> pedido \<Rightarrow> movimentacao" where
  "movimentacao_do_pedido p tp f r =
     \<lparr>mov_pk = None, produto = p, tipo = tp, quantidade = ped_quantidade r,
      motivo = ped_motivo r, funcionario = f, data_movimentacao = None,
      observacoes = ped_observacoes r\<rparr>"

text \<open>
  \<^verbatim>\<open>with transaction.atomic():\<close> around a block that starts from store \<open>db\<close>: when the
  block raises, its writes are rolled back and the exception goes on to the caller; when
  it returns, the store it reached is committed in one step. The instance in memory keeps
  what the block did to it.
\<close>

definition transaction_atomic ::
  "database \<Rightarrow> (exception + unit) \<times> movimentacao \<times> database list
     \<Rightarrow> (exception + unit) \<times> movimentacao \<times> database list" where
  "transaction_atomic db res =
     (case res of
        (Inl e, m, dbs) \<Rightarrow> (Inl e, m, [])
      | (Inr u, m, dbs) \<Rightarrow> (Inr u, m, [last (db # dbs)]))"

text \<open>
  What a view answers: the redirect after success, the form again with its \<^verbatim>\<open>erros\<close>,
  or an exception that no \<^verbatim>\<open>except\<close> clause of the view catches.
\<close>

datatype erro_formulario = Produto_nao_encontrado | Estoque_insuficiente int

datatype resposta =
  Redirect | Render "(string \<times> erro_formulario) list" | Excecao exception

text \<open>
  \<^verbatim>\<open>registrar_saida\<close>, lines 186-197: the product is read and the sufficiency of the
  stock is checked on the instance read. This part runs before the transaction starts.
\<close>

definition registrar_saida_ler ::
  "pedido \<Rightarrow> database \<Rightarrow> (string \<times> erro_formulario) list + produto \<times> nat option" where
  "registrar_saida_ler r db =
     (case Produto_objects_get (ped_produto r) db of
        Inl e \<Rightarrow> Inl [(''produto'', Produto_nao_encontrado)]
      | Inr p \<Rightarrow>
          if quantidade_atual p < ped_quantidade r
          then Inl [(''quantidade'', Estoque_insuficiente (quantidade_atual p))]
          else Inr (p, primeiro_funcionario db))"

text \<open>
  \<^verbatim>\<open>registrar_saida\<close>, lines 199-211: the transaction, on the instance read before. The
  only \<^verbatim>\<open>except\<close> clause (line 213) is for \<^verbatim>\<open>Produto.DoesNotExist\<close>, so a
  \<^verbatim>\<open>ValueError\<close> of the method would leave the view.
\<close>

definition registrar_saida_gravar ::
  "pedido \<Rightarrow> produto \<times> nat option \<Rightarrow> database \<Rightarrow> resposta \<times> database" where
  "registrar_saida_gravar r pf db =
     (case transaction_atomic db
             (salvar_passos (ped_hora r) (ped_hora r)
                (movimentacao_do_pedido (fst pf) ''saida'' (snd pf) r) db) of
        (Inl e, m, dbs) \<Rightarrow> (Excecao e, last (db # dbs))
      | (Inr u, m, dbs) \<Rightarrow> (Redirect, last (db # dbs)))"

definition registrar_saida :: "pedido \<Rightarrow> database \<Rightarrow> resposta \<times> database" where
  "registrar_saida r db =
     (case registrar_saida_ler r db of
        Inl erros \<Rightarrow> (Render erros, db)
      | Inr pf \<Rightarrow> registrar_saida_gravar r pf db)"

text \<open>\<^verbatim>\<open>registrar_entrada\<close>, lines 104-129.\<close>

definition registrar_entrada :: "pedido \<Rightarrow> database \<Rightarrow> resposta \<times> database" where
  "registrar_entrada r db =
     (case Produto_objects_get (ped_produto r) db of
        Inl e \<Rightarrow> (Render [(''produto'', Produto_nao_encontrado)], db)
      | Inr p \<Rightarrow>
          (case transaction_atomic db
                  (salvar_passos (ped_hora r) (ped_hora r)
                     (movimentacao_do_pedido p ''entrada'' (primeiro_funcionario db) r) db) of
             (Inl e, m, dbs) \<Rightarrow> (Excecao e, last (db # dbs))
           | (Inr u, m, dbs) \<Rightarrow> (Redirect, last (db # dbs))))"

subsection \<open>Requests in flight at the same time\<close>

text \<open>
  Several withdrawal requests \<open>rs\<close> are served at once. Each goes through two steps, in
  this order: \<open>Ler i\<close> is the read and check of request \<open>i\<close> (lines 186-197), \<open>Gravar i\<close> its
  transaction (lines 199-211). A transaction is one step: no other request sees the store
  between its two writes. Between the two steps of one request any steps of the others
  may run. A step that is not the next one of its request does nothing.
\<close>

datatype fase = Aguardando | Lido produto "nat option" | Terminado resposta

datatype evento = Ler nat | Gravar nat

fun passo :: "pedido list \<Rightarrow> evento \<Rightarrow> database \<times> fase list \<Rightarrow> database \<times> fase list" where
  "passo rs (Ler i) (db, fs) =
     (if i < length rs \<and> i < length fs \<and> fs ! i = Aguardando
      then (db, fs[i := (case registrar_saida_ler (rs ! i) db of
                           Inl erros \<Rightarrow> Terminado (Render erros)
                         | Inr (p, f) \<Rightarrow> Lido p f)])
      else (db, fs))"
| "passo rs (Gravar i) (db, fs) =
     (if i < length rs \<and> i < length fs
      then (case fs ! i of
              Lido p f \<Rightarrow>
                (case registrar_saida_gravar (rs ! i) (p, f) db of
                   (resp, db') \<Rightarrow> (db', fs[i := Terminado resp]))
            | _ \<Rightarrow> (db, fs))
      else (db, fs))"

definition executar ::
  "pedido list \<Rightarrow> evento list \<Rightarrow> database \<times> fase list \<Rightarrow> database \<times> fase list" where
  "executar rs evs st = fold (passo rs) evs st"

text \<open>The same requests served one after the other, each from read to commit.\<close>

definition atender_em_serie :: "pedido list \<Rightarrow> database \<Rightarrow> database" where
  "atender_em_serie rs db = fold (\<lambda>r d. snd (registrar_saida r d)) rs db"

text \<open>
  A sequence of calls of the method, of any kinds: each movement is built for the product
  as the store holds it at that time, the way the views build it, and an exception of one
  call is handled by the caller, who goes on with the next.
\<close>

fun aplicar_pedidos :: "(string \<times> pedido) list \<Rightarrow> database \<Rightarrow> database" where
  "aplicar_pedidos [] db = db"
| "aplicar_pedidos ((tp, r) # rs) db =
     (case produtos db (ped_produto r) of
        None \<Rightarrow> aplicar_pedidos rs db
      | Some p \<Rightarrow>
          aplicar_pedidos rs
            (snd (snd (salvar_e_atualizar_estoque (ped_hora r) (ped_hora r)
               (movimentacao_do_pedido p tp (primeiro_funcionario db) r) db))))"

section \<open>Notions used in the properties\<close>

text \<open>The store holds the product instance, field by field, under its primary key.\<close>

definition produto_persistido :: "produto \<Rightarrow> database \<Rightarrow> bool" where
  "produto_persistido p db = (produtos db (pk p) = Some p)"

text \<open>The movement instance has a primary key and the table holds its row.\<close>

definition movimentacao_persistida :: "movimentacao \<Rightarrow> database \<Rightarrow> bool" where
  "movimentacao_persistida m db =
     (case mov_pk m of None \<Rightarrow> False | Some i \<Rightarrow> to_row i m \<in> set (movimentacoes db))"

text \<open>No stored product has a negative quantity.\<close>

definition estoque_nao_negativo :: "database \<Rightarrow> bool" where
  "estoque_nao_negativo db = (\<forall>i p. produtos db i = Some p \<longrightarrow> 0 \<le> quantidade_atual p)"

text \<open>Every stored product sits under its own primary key.\<close>

definition chaves_coerentes :: "database \<Rightarrow> bool" where
  "chaves_coerentes db = (\<forall>i p. produtos db i = Some p \<longrightarrow> pk p = i)"

text \<open>
  Every movement record of \<open>db\<close> is in \<open>db'\<close>, at the same place and with the same fields.
\<close>

definition registros_preservados :: "database \<Rightarrow> database \<Rightarrow> bool" where
  "registros_preservados db db' =
     (take (length (movimentacoes db)) (movimentacoes db') = movimentacoes db)"

text \<open>The units withdrawn from product \<open>i\<close> according to the movement records.\<close>

definition total_saidas :: "nat \<Rightarrow> database \<Rightarrow> int" where
  "total_saidas i db =
     sum_list (map row_quantidade
       (filter (\<lambda>r. row_produto_id r = i \<and> row_tipo r = ''saida'') (movimentacoes db)))"

text \<open>The stock of product \<open>i\<close> plus the units withdrawn from it.\<close>

definition saldo :: "nat \<Rightarrow> database \<Rightarrow> int option" where
  "saldo i db = map_option (\<lambda>p. quantidade_atual p + total_saidas i db) (produtos db i)"

section \<open>Example data (criar_exemplos.py)\<close>

text \<open>
  \<^verbatim>\<open>prod2\<close> of lines 118-131, with 45 units in stock and a minimum of 10, alone in a
  store that has one employee; the same store with one movement recorded, the receipt of
  100 units of lines 167-177; and a request of \<open>q\<close> units of product \<open>i\<close> at time \<open>t\<close>.
\<close>

definition prod2 :: produto where
  "prod2 = \<lparr>pk = 2, codigo = ''EQUIP-001'', nome = ''Termometro Digital'',
            descricao = ''Termometro infravermelho digital'', categoria = Some 2,
            instituicao = 1, quantidade_minima = 10, quantidade_atual = 45,
            preco_unitario = 8500, ativo = True, data_criacao = 0, data_atualizacao = 0\<rparr>"

definition db_exemplo :: database where
  "db_exemplo = \<lparr>produtos = [2 \<mapsto> prod2], movimentacoes = [], funcionarios = [1]\<rparr>"

definition mov1_row :: movimentacao_row where
  "mov1_row = \<lparr>row_id = 1, row_produto_id = 2, row_tipo = ''entrada'', row_quantidade = 100,
               row_motivo = ''Compra'', row_funcionario_id = Some 1,
               row_data_movimentacao = Some 3, row_observacoes = []\<rparr>"

definition db_com_movimento :: database where
  "db_com_movimento = db_exemplo\<lparr>movimentacoes := [mov1_row]\<rparr>"

text \<open>
  The instance of that movement as read from the store, with its quantity changed in
  memory from 100 to 7.
\<close>

definition mov1_alterada :: movimentacao where
  "mov1_alterada =
     \<lparr>mov_pk = Some 1, produto = prod2, tipo = ''entrada'', quantidade = 7,
      motivo = ''Compra'', funcionario = Some 1, data_movimentacao = Some 3,
      observacoes = []\<rparr>"

definition pedido_exemplo :: "datetime \<Rightarrow> nat \<Rightarrow> int \<Rightarrow> pedido" where
  "pedido_exemplo t i q =
     \<lparr>ped_hora = t, ped_produto = i, ped_quantidade = q, ped_motivo = ''Uso em consultas'',
      ped_observacoes = []\<rparr>"

definition mov_exemplo :: "string \<Rightarrow> int \<Rightarrow> movimentacao" where
  "mov_exemplo tp q = movimentacao_do_pedido prod2 tp (Some 1) (pedido_exemplo 7 2 q)"

text \<open>
  Four calls in a row on product 2: a withdrawal of 50, one of 45, an adjustment to 0 and
  a receipt of 3. Two withdrawal requests of 30 units each, and the schedule in which
  both are read before either transaction runs.
\<close>

definition pedidos_exemplo :: "(string \<times> pedido) list" where
  "pedidos_exemplo =
     [(''saida'', pedido_exemplo 1 2 50), (''saida'', pedido_exemplo 2 2 45),
      (''ajuste'', pedido_exemplo 3 2 0), (''entrada'', pedido_exemplo 4 2 3)]"

definition dois_pedidos :: "pedido list" where
  "dois_pedidos = [pedido_exemplo 7 2 30, pedido_exemplo 8 2 30]"

definition leituras_primeiro :: "evento list" where
  "leituras_primeiro = [Ler 0, Ler 1, Gravar 0, Gravar 1]"

section \<open>Auxiliary facts\<close>

subsection \<open>The two save operations\<close>

lemma produto_save_lookup:
  assumes "produto_save now p db = (p', db')"
  shows "produtos db' (pk p) = Some p'" "quantidade_atual p' = quantidade_atual p"
    "pk p' = pk p" "movimentacoes db' = movimentacoes db"
    "produtos db' = (produtos db)(pk p \<mapsto> p')"
  using assms by (auto simp: produto_save_def Let_def)

lemma movimentacao_save_fields:
  assumes "movimentacao_save now m db = (m', db')"
  shows "produto m' = produto m" "tipo m' = tipo m" "quantidade m' = quantidade m"
    "produtos db' = produtos db"
  using assms
  by (auto simp: movimentacao_save_def Let_def split: option.splits if_splits)

lemma map_replace_mem:
  "i \<in> set (map row_id rs) \<Longrightarrow> row_id x = i \<Longrightarrow>
     x \<in> set (map (\<lambda>r. if row_id r = i then x else r) rs)"
  by (induction rs) auto

lemma movimentacao_save_row:
  assumes "movimentacao_save now m db = (m', db')"
  shows "\<exists>i. mov_pk m' = Some i \<and> to_row i m' \<in> set (movimentacoes db')"
  using assms
  by (auto simp: movimentacao_save_def Let_def to_row_def
      split: option.splits if_splits intro!: map_replace_mem[simplified])

lemma movimentacao_save_novo:
  assumes "mov_pk m = None" and "movimentacao_save now m db = (m', db')"
  shows "m' = m\<lparr>mov_pk := Some (next_id (movimentacoes db)), data_movimentacao := Some now\<rparr>"
    and "movimentacoes db' = movimentacoes db @ [to_row (next_id (movimentacoes db)) m']"
  using assms by (auto simp: movimentacao_save_def Let_def)



subsection \<open>The method, case by case\<close>

lemma atualizar_estoque_fields:
  assumes "atualizar_estoque m = Inr m1"
  shows "tipo m1 = tipo m" "quantidade m1 = quantidade m" "mov_pk m1 = mov_pk m"
    "pk (produto m1) = pk (produto m)"
  using assms by (auto simp: atualizar_estoque_def split: if_splits)

lemma salvar_erro:
  assumes "atualizar_estoque m = Inl e"
  shows "salvar_passos t1 t2 m db = (Inl e, m, [])"
    and "salvar_e_atualizar_estoque t1 t2 m db = (Inl e, m, db)"
  using assms by (simp_all add: salvar_e_atualizar_estoque_def salvar_passos_def)

text \<open>The two writes of a call that does not raise, one by one.\<close>

lemma salvar_passos_sucesso:
  assumes "atualizar_estoque m = Inr m1"
  shows "\<exists>p2 db1 m3 db2.
           produto_save t1 (produto m1) db = (p2, db1)
           \<and> movimentacao_save t2 (m1\<lparr>produto := p2\<rparr>) db1 = (m3, db2)
           \<and> salvar_passos t1 t2 m db = (Inr (), m3, [db1, db2])"
  using assms by (simp add: salvar_passos_def split: prod.splits)

lemma salvar_sucesso:
  assumes a: "atualizar_estoque m = Inr m1"
    and s: "salvar_e_atualizar_estoque t1 t2 m db = (r, m', db')"
  shows "r = Inr ()"
    and "quantidade_atual (produto m') = quantidade_atual (produto m1)"
    and "pk (produto m') = pk (produto m)"
    and "tipo m' = tipo m" and "quantidade m' = quantidade m"
    and "produto_persistido (produto m') db'"
    and "movimentacao_persistida m' db'"
    and "produtos db' = (produtos db)(pk (produto m) \<mapsto> produto m')"
proof -
  from salvar_passos_sucesso[OF a, of t1 db t2] obtain p2 db1 m3 db2 where
    ps: "produto_save t1 (produto m1) db = (p2, db1)" and
    ms: "movimentacao_save t2 (m1\<lparr>produto := p2\<rparr>) db1 = (m3, db2)" and
    sp: "salvar_passos t1 t2 m db = (Inr (), m3, [db1, db2])"
    by blast
  from s sp have res: "r = Inr ()" "m' = m3" "db' = db2"
    by (simp_all add: salvar_e_atualizar_estoque_def)
  note pf = produto_save_lookup[OF ps]
  note mf = movimentacao_save_fields[OF ms]
  note af = atualizar_estoque_fields[OF a]
  show "r = Inr ()" by (rule res)
  show "quantidade_atual (produto m') = quantidade_atual (produto m1)"
    using res mf pf by simp
  show "pk (produto m') = pk (produto m)" using res mf pf af by simp
  show "tipo m' = tipo m" using res mf af by simp
  show "quantidade m' = quantidade m" using res mf af by simp
  show "produto_persistido (produto m') db'"
    using res mf pf by (simp add: produto_persistido_def)
  show "movimentacao_persistida m' db'"
    using movimentacao_save_row[OF ms] res by (auto simp: movimentacao_persistida_def)
  show "produtos db' = (produtos db)(pk (produto m) \<mapsto> produto m')"
    using res mf pf(5) af by simp
qed

lemma salvar_novo:
  assumes novo: "mov_pk m = None" and a: "atualizar_estoque m = Inr m1"
    and s: "salvar_e_atualizar_estoque t1 t2 m db = (r, m', db')"
  shows "movimentacoes db' = movimentacoes db @ [to_row (next_id (movimentacoes db)) m']"
    and "mov_pk m' = Some (next_id (movimentacoes db))"
    and "data_movimentacao m' = Some t2"
proof -
  from salvar_passos_sucesso[OF a, of t1 db t2] obtain p2 db1 m3 db2 where
    ps: "produto_save t1 (produto m1) db = (p2, db1)" and
    ms: "movimentacao_save t2 (m1\<lparr>produto := p2\<rparr>) db1 = (m3, db2)" and
    sp: "salvar_passos t1 t2 m db = (Inr (), m3, [db1, db2])"
    by blast
  from s sp have res: "m' = m3" "db' = db2"
    by (simp_all add: salvar_e_atualizar_estoque_def)
  have "mov_pk (m1\<lparr>produto := p2\<rparr>) = None"
    using atualizar_estoque_fields(3)[OF a] novo by simp
  note mn = movimentacao_save_novo[OF this ms]
  note pf = produto_save_lookup[OF ps]
  show "movimentacoes db' = movimentacoes db @ [to_row (next_id (movimentacoes db)) m']"
    using mn(2) pf(4) res by simp
  show "mov_pk m' = Some (next_id (movimentacoes db))"
    using mn(1) pf(4) res by simp
  show "data_movimentacao m' = Some t2"
    using mn(1) res by simp
qed


subsection \<open>Quantities that stay non-negative\<close>

lemma salvar_nao_negativo:
  assumes "0 \<le> quantidade_atual (produto m)" and "0 \<le> quantidade m"
    and s: "salvar_e_atualizar_estoque t1 t2 m db = (r, m', db')"
  shows "0 \<le> quantidade_atual (produto m')"
    and "estoque_nao_negativo db \<Longrightarrow> estoque_nao_negativo db'"
proof -
  show q: "0 \<le> quantidade_atual (produto m')"
  proof (cases "atualizar_estoque m")
    case (Inl e)
    with salvar_erro(2)[OF Inl, of t1 t2 db] s assms(1) show ?thesis by simp
  next
    case (Inr m1)
    have "0 \<le> quantidade_atual (produto m1)"
      using Inr assms(1,2) by (auto simp: atualizar_estoque_def split: if_splits)
    with salvar_sucesso(2)[OF Inr s] show ?thesis by simp
  qed
  show "estoque_nao_negativo db'" if inv: "estoque_nao_negativo db"
  proof (cases "atualizar_estoque m")
    case (Inl e)
    with salvar_erro(2)[OF Inl, of t1 t2 db] s inv show ?thesis by simp
  next
    case (Inr m1)
    from salvar_sucesso(8)[OF Inr s] inv q show ?thesis
      by (auto simp: estoque_nao_negativo_def split: if_splits)
  qed
qed

lemma aplicar_pedidos_nao_negativo:
  assumes "estoque_nao_negativo db" and "\<forall>(tp, r) \<in> set rs. 0 \<le> ped_quantidade r"
  shows "estoque_nao_negativo (aplicar_pedidos rs db)"
  using assms
proof (induction rs arbitrary: db)
  case Nil
  then show ?case by simp
next
  case (Cons a rs)
  obtain tp r where a: "a = (tp, r)" by (cases a)
  show ?case
  proof (cases "produtos db (ped_produto r)")
    case None
    with Cons a show ?thesis by simp
  next
    case (Some p)
    let ?m = "movimentacao_do_pedido p tp (primeiro_funcionario db) r"
    obtain res m' db' where
      s: "salvar_e_atualizar_estoque (ped_hora r) (ped_hora r) ?m db = (res, m', db')"
      by (cases "salvar_e_atualizar_estoque (ped_hora r) (ped_hora r) ?m db")
    have "0 \<le> quantidade_atual (produto ?m)"
      using Some Cons.prems(1)
      by (auto simp: estoque_nao_negativo_def movimentacao_do_pedido_def)
    moreover have "0 \<le> quantidade ?m"
      using Cons.prems(2) a by (simp add: movimentacao_do_pedido_def)
    ultimately have "estoque_nao_negativo db'"
      using salvar_nao_negativo(2)[OF _ _ s] Cons.prems(1) by blast
    with Cons.IH[of db'] Cons.prems(2) Some s a show ?thesis by simp
  qed
qed

text \<open>A withdrawal writes a quantity that passed the check of line 133.\<close>

lemma salvar_saida_nao_negativo:
  assumes "tipo m = ''saida''"
    and s: "salvar_e_atualizar_estoque t1 t2 m db = (r, m', db')"
    and inv: "estoque_nao_negativo db"
  shows "estoque_nao_negativo db'"
proof (cases "atualizar_estoque m")
  case (Inl e)
  with salvar_erro(2)[OF Inl, of t1 t2 db] s inv show ?thesis by simp
next
  case (Inr m1)
  have "0 \<le> quantidade_atual (produto m1)"
    using Inr assms(1) by (auto simp: atualizar_estoque_def split: if_splits)
  with salvar_sucesso(2)[OF Inr s] have "0 \<le> quantidade_atual (produto m')" by simp
  with salvar_sucesso(8)[OF Inr s] inv show ?thesis
    by (auto simp: estoque_nao_negativo_def split: if_splits)
qed

subsection \<open>The views in terms of the method\<close>

lemma atomic_salvar:
  "transaction_atomic db (salvar_passos t1 t2 m db) =
     (case salvar_e_atualizar_estoque t1 t2 m db of
        (Inl e, m', db') \<Rightarrow> (Inl e, m', [])
      | (Inr u, m', db') \<Rightarrow> (Inr u, m', [db']))"
  by (simp add: transaction_atomic_def salvar_e_atualizar_estoque_def
      split: prod.splits sum.splits)

lemma salvar_Inl_inalterado:
  assumes "salvar_e_atualizar_estoque t1 t2 m db = (Inl e, m', db')"
  shows "db' = db"
proof (cases "atualizar_estoque m")
  case (Inl e')
  from salvar_erro(2)[OF Inl, of t1 t2 db] assms show ?thesis by simp
next
  case (Inr m1)
  from salvar_sucesso(1)[OF Inr assms] show ?thesis by simp
qed

lemma registrar_saida_gravar_salvar:
  assumes "salvar_e_atualizar_estoque (ped_hora r) (ped_hora r)
             (movimentacao_do_pedido (fst pf) ''saida'' (snd pf) r) db = (res, m', db')"
  shows "registrar_saida_gravar r pf db =
           ((case res of Inl e \<Rightarrow> Excecao e | Inr u \<Rightarrow> Redirect), db')"
proof (cases res)
  case (Inl e)
  with assms have "db' = db" by (auto dest: salvar_Inl_inalterado)
  with assms Inl show ?thesis
    by (simp add: registrar_saida_gravar_def atomic_salvar)
next
  case (Inr u)
  with assms show ?thesis
    by (simp add: registrar_saida_gravar_def atomic_salvar)
qed


lemma registrar_saida_gravar_nao_negativo:
  assumes "estoque_nao_negativo db"
  shows "estoque_nao_negativo (snd (registrar_saida_gravar r pf db))"
proof -
  let ?m = "movimentacao_do_pedido (fst pf) ''saida'' (snd pf) r"
  obtain res m' db' where
    s: "salvar_e_atualizar_estoque (ped_hora r) (ped_hora r) ?m db = (res, m', db')"
    by (cases "salvar_e_atualizar_estoque (ped_hora r) (ped_hora r) ?m db")
  have "tipo ?m = ''saida''" by (simp add: movimentacao_do_pedido_def)
  from salvar_saida_nao_negativo[OF this s assms] registrar_saida_gravar_salvar[OF s]
  show ?thesis by simp
qed

lemma passo_nao_negativo:
  assumes "estoque_nao_negativo (fst st)"
  shows "estoque_nao_negativo (fst (passo rs ev st))"
proof (cases st)
  case (Pair db fs)
  show ?thesis
  proof (cases ev)
    case (Ler i)
    with Pair assms show ?thesis by simp
  next
    case (Gravar i)
    with Pair assms registrar_saida_gravar_nao_negativo[of db "rs ! i"]
    show ?thesis
      by (auto split: fase.splits prod.splits) (metis snd_conv)
  qed
qed

lemma executar_nao_negativo:
  assumes "estoque_nao_negativo (fst st)"
  shows "estoque_nao_negativo (fst (executar rs evs st))"
  using assms unfolding executar_def
  by (induction evs arbitrary: st) (simp_all add: passo_nao_negativo)

lemma registrar_saida_nao_negativo:
  assumes "estoque_nao_negativo db"
  shows "estoque_nao_negativo (snd (registrar_saida r db))"
  using assms registrar_saida_gravar_nao_negativo[OF assms, of r]
  by (auto simp: registrar_saida_def split: sum.splits)

lemma atender_em_serie_nao_negativo:
  assumes "estoque_nao_negativo db"
  shows "estoque_nao_negativo (atender_em_serie rs db)"
  using assms unfolding atender_em_serie_def
  by (induction rs arbitrary: db) (simp_all add: registrar_saida_nao_negativo)

subsection \<open>Movement records that stay as they are\<close>










subsection \<open>Stock and withdrawals when requests are served in series\<close>

lemma registrar_saida_efeito:
  assumes wf: "chaves_coerentes db"
  shows "chaves_coerentes (snd (registrar_saida r db))
         \<and> saldo i (snd (registrar_saida r db)) = saldo i db"
proof (cases "registrar_saida_ler r db")
  case (Inl erros)
  with wf show ?thesis by (simp add: registrar_saida_def)
next
  case (Inr pf)
  obtain p f where pf: "pf = (p, f)" by (cases pf)
  let ?j = "ped_produto r"
  let ?q = "ped_quantidade r"
  from Inr pf have p: "produtos db ?j = Some p" and ok: "?q \<le> quantidade_atual p"
    by (auto simp: registrar_saida_ler_def Produto_objects_get_def
        split: option.splits if_splits)
  from wf p have pkp: "pk p = ?j" by (simp add: chaves_coerentes_def)
  let ?m = "movimentacao_do_pedido p ''saida'' f r"
  let ?m1 = "?m\<lparr>produto := p\<lparr>quantidade_atual := quantidade_atual p - ?q\<rparr>\<rparr>"
  have a: "atualizar_estoque ?m = Inr ?m1"
    using ok by (simp add: atualizar_estoque_def movimentacao_do_pedido_def)
  obtain res m' db' where
    s: "salvar_e_atualizar_estoque (ped_hora r) (ped_hora r) ?m db = (res, m', db')"
    by (cases "salvar_e_atualizar_estoque (ped_hora r) (ped_hora r) ?m db")
  have novo: "mov_pk ?m = None" by (simp add: movimentacao_do_pedido_def)
  note su = salvar_sucesso[OF a s]
  have prods: "produtos db' = (produtos db)(?j \<mapsto> produto m')"
    using su(8) pkp by (simp add: movimentacao_do_pedido_def)
  have pk': "pk (produto m') = ?j"
    using su(3) pkp by (simp add: movimentacao_do_pedido_def)
  have q': "quantidade_atual (produto m') = quantidade_atual p - ?q"
    using su(2) by (simp add: movimentacao_do_pedido_def)
  have movs: "movimentacoes db' = movimentacoes db @ [to_row (next_id (movimentacoes db)) m']"
    by (rule salvar_novo(1)[OF novo a s])
  have tot: "total_saidas i db' = total_saidas i db + (if i = ?j then ?q else 0)"
    using movs su(4,5) pk'
    by (simp add: total_saidas_def to_row_def movimentacao_do_pedido_def)
  have db': "snd (registrar_saida r db) = db'"
    using Inr pf registrar_saida_gravar_salvar[of r "(p, f)" db res m' db'] s
    by (simp add: registrar_saida_def)
  have "chaves_coerentes db'"
    using wf prods pk' by (auto simp: chaves_coerentes_def split: if_splits)
  moreover have "saldo i db' = saldo i db"
    using prods tot q' p by (auto simp: saldo_def)
  ultimately show ?thesis by (simp add: db')
qed

lemma atender_em_serie_efeito:
  assumes "chaves_coerentes db"
  shows "chaves_coerentes (atender_em_serie rs db)
         \<and> saldo i (atender_em_serie rs db) = saldo i db"
  using assms unfolding atender_em_serie_def
proof (induction rs arbitrary: db)
  case Nil
  then show ?case by simp
next
  case (Cons r rs)
  from registrar_saida_efeito[OF Cons.prems, of r i] Cons.IH[of "snd (registrar_saida r db)"]
  show ?case by simp
qed

text \<open>The definitions a concrete run unfolds.\<close>

lemmas unfold_run =
  salvar_e_atualizar_estoque_def salvar_passos_def atualizar_estoque_def produto_save_def
  movimentacao_save_def to_row_def next_id_def Let_def executar_def atender_em_serie_def
  registrar_saida_def registrar_entrada_def registrar_saida_ler_def
  registrar_saida_gravar_def Produto_objects_get_def transaction_atomic_def
  movimentacao_do_pedido_def primeiro_funcionario_def pedido_exemplo_def mov_exemplo_def
  prod2_def db_exemplo_def db_com_movimento_def mov1_row_def mov1_alterada_def
  pedidos_exemplo_def dois_pedidos_def leituras_primeiro_def
  total_saidas_def
  produto_persistido_def movimentacao_persistida_def registros_preservados_def
  esta_com_estoque_baixo_def

section \<open>Properties of the movement-application operation\<close>

subsection \<open>Insufficient stock\<close>



subsection \<open>Withdrawal, receipt, adjustment\<close>







subsection \<open>The quantity never becomes negative\<close>

text \<open>
  Claim C5. When the current quantity of the product and the quantity of the movement
  are non-negative, the current quantity of the product is non-negative after
  \<^verbatim>\<open>salvar_e_atualizar_estoque\<close>, whether it returned or raised, and a store without
  negative quantities is still one. So no sequence of calls, of receipts, withdrawals,
  adjustments or any other kind, with non-negative quantities, leads from a store without
  negative quantities to one with a negative quantity.
\<close>

theorem C5_estoque_nunca_negativo:
  "(0 \<le> quantidade_atual (produto m) \<and> 0 \<le> quantidade m \<longrightarrow>
      (case salvar_e_atualizar_estoque t1 t2 m db of (r, m', db') \<Rightarrow>
         0 \<le> quantidade_atual (produto m')
         \<and> (estoque_nao_negativo db \<longrightarrow> estoque_nao_negativo db')))
   \<and> (estoque_nao_negativo db \<and> (\<forall>(tp, r) \<in> set rs. 0 \<le> ped_quantidade r) \<longrightarrow>
        estoque_nao_negativo (aplicar_pedidos rs db))"
proof -
  obtain r m' db' where s: "salvar_e_atualizar_estoque t1 t2 m db = (r, m', db')"
    by (cases "salvar_e_atualizar_estoque t1 t2 m db")
  show ?thesis
    using salvar_nao_negativo[OF _ _ s] aplicar_pedidos_nao_negativo[of db rs]
    by (auto simp: s)
qed

text \<open>
  On the example store: the withdrawal of 50 raises and leaves 45; after the four calls of
  \<open>pedidos_exemplo\<close> the stock is 3.
\<close>

theorem C5_witness:
  "0 \<le> quantidade_atual (produto (mov_exemplo ''saida'' 50))
   \<and> 0 \<le> quantidade (mov_exemplo ''saida'' 50)
   \<and> estoque_nao_negativo db_exemplo
   \<and> list_all (\<lambda>(tp, r). 0 \<le> ped_quantidade r) pedidos_exemplo
   \<and> (case salvar_e_atualizar_estoque 7 8 (mov_exemplo ''saida'' 50) db_exemplo of
        (r, m', db') \<Rightarrow>
          quantidade_atual (produto m') = 45 \<and> 0 \<le> quantidade_atual (produto m')
          \<and> estoque_nao_negativo db')
   \<and> estoque_nao_negativo (aplicar_pedidos pedidos_exemplo db_exemplo)
   \<and> map_option quantidade_atual (produtos (aplicar_pedidos pedidos_exemplo db_exemplo) 2)
       = Some 3"
proof -
  have e: "estoque_nao_negativo db_exemplo"
    by (simp add: estoque_nao_negativo_def db_exemplo_def prod2_def)
  have q: "\<forall>(tp, r) \<in> set pedidos_exemplo. 0 \<le> ped_quantidade r"
    by (simp add: pedidos_exemplo_def pedido_exemplo_def)
  have v: "map_option quantidade_atual
             (produtos (aplicar_pedidos pedidos_exemplo db_exemplo) 2) = Some 3"
    by (simp add: unfold_run)
  have u: "salvar_e_atualizar_estoque 7 8 (mov_exemplo ''saida'' 50) db_exemplo
             = (Inl (ValueError ''Quantidade insuficiente em estoque''),
                mov_exemplo ''saida'' 50, db_exemplo)"
    by (simp add: unfold_run)
  have m: "quantidade_atual (produto (mov_exemplo ''saida'' 50)) = 45"
    "quantidade (mov_exemplo ''saida'' 50) = 50"
    by (simp_all add: unfold_run)
  show ?thesis
    using C5_estoque_nunca_negativo[where m = "mov_exemplo ''saida'' 50" and ?t1.0 = 7
        and ?t2.0 = 8 and db = db_exemplo and rs = pedidos_exemplo] e q v
    by (simp add: u m pedidos_exemplo_def pedido_exemplo_def)
qed

subsection \<open>The order of the two writes\<close>

text \<open>
  Claim C6. In every execution of \<^verbatim>\<open>salvar_e_atualizar_estoque\<close> that returns, two stores
  are written, in this order: the first holds the product with its updated quantity and
  the movement table as it was; the second holds the product with its updated quantity
  and the movement record. So no store written holds the movement record next to the
  product with its quantity of before. Inside \<^verbatim>\<open>transaction.atomic\<close>, as in the views, only
  the second store is committed.
\<close>

theorem C6_produto_antes_da_movimentacao:
  assumes "fst (salvar_passos t1 t2 m db) = Inr ()"
  shows "case salvar_passos t1 t2 m db of (r, m', dbs) \<Rightarrow>
           (\<exists>db1 db2. dbs = [db1, db2]
              \<and> produto_persistido (produto m') db1
              \<and> movimentacoes db1 = movimentacoes db
              \<and> produto_persistido (produto m') db2
              \<and> movimentacao_persistida m' db2
              \<and> salvar_e_atualizar_estoque t1 t2 m db = (Inr (), m', db2)
              \<and> transaction_atomic db (salvar_passos t1 t2 m db) = (Inr (), m', [db2]))"
proof (cases "atualizar_estoque m")
  case (Inl e)
  with assms show ?thesis by (simp add: salvar_passos_def)
next
  case (Inr m1)
  from salvar_passos_sucesso[OF Inr, of t1 db t2] obtain p2 db1 m3 db2 where
    ps: "produto_save t1 (produto m1) db = (p2, db1)" and
    ms: "movimentacao_save t2 (m1\<lparr>produto := p2\<rparr>) db1 = (m3, db2)" and
    sp: "salvar_passos t1 t2 m db = (Inr (), m3, [db1, db2])"
    by blast
  note pf = produto_save_lookup[OF ps]
  note mf = movimentacao_save_fields[OF ms]
  have s: "salvar_e_atualizar_estoque t1 t2 m db = (Inr (), m3, db2)"
    by (simp add: salvar_e_atualizar_estoque_def sp)
  have "produto_persistido (produto m3) db1"
    using pf mf by (simp add: produto_persistido_def)
  moreover have "movimentacoes db1 = movimentacoes db" by (rule pf)
  moreover note salvar_sucesso(6,7)[OF Inr s]
  moreover have "transaction_atomic db (salvar_passos t1 t2 m db) = (Inr (), m3, [db2])"
    by (simp add: transaction_atomic_def sp)
  ultimately show ?thesis by (simp add: sp s)
qed

text \<open>The two stores written by the withdrawal of 45 units of the example product.\<close>

theorem C6_witness:
  "fst (salvar_passos 7 8 (mov_exemplo ''saida'' 45) db_exemplo) = Inr ()
   \<and> (case salvar_passos 7 8 (mov_exemplo ''saida'' 45) db_exemplo of
        (r, m', dbs) \<Rightarrow>
          length dbs = 2
          \<and> map (\<lambda>s. map_option quantidade_atual (produtos s 2)) dbs = [Some 0, Some 0]
          \<and> map (\<lambda>s. map row_quantidade (movimentacoes s)) dbs = [[], [45]]
          \<and> (\<exists>db1 db2. dbs = [db1, db2]
                \<and> produto_persistido (produto m') db1
                \<and> movimentacoes db1 = movimentacoes db_exemplo
                \<and> produto_persistido (produto m') db2
                \<and> movimentacao_persistida m' db2))"
proof -
  have h: "fst (salvar_passos 7 8 (mov_exemplo ''saida'' 45) db_exemplo) = Inr ()"
    by (simp add: unfold_run)
  show ?thesis
    using C6_produto_antes_da_movimentacao[OF h] h
    by (auto simp: unfold_run)
qed

subsection \<open>Low stock\<close>

text \<open>
  Claim C7. The low-stock predicate of a product holds exactly when its current quantity
  is at most its minimum quantity. It holds at the boundary, where the two are equal, and
  it holds after a withdrawal that takes the whole stock of a product whose minimum is 10,
  leaving 0.
\<close>

theorem C7_estoque_baixo:
  "(esta_com_estoque_baixo p \<longleftrightarrow> quantidade_atual p \<le> quantidade_minima p)
   \<and> esta_com_estoque_baixo (p\<lparr>quantidade_atual := quantidade_minima p\<rparr>)
   \<and> (let m = \<lparr>mov_pk = None, produto = p\<lparr>quantidade_minima := 10\<rparr>, tipo = ''saida'',
                quantidade = quantidade_atual p, motivo = mo, funcionario = f,
                data_movimentacao = None, observacoes = ob\<rparr>;
           (r, m', db') = salvar_e_atualizar_estoque t1 t2 m db
       in r = Inr () \<and> quantidade_atual (produto m') = 0
          \<and> esta_com_estoque_baixo (produto m')
          \<and> map_option esta_com_estoque_baixo (produtos db' (pk p)) = Some True)"
  by (simp add: esta_com_estoque_baixo_def salvar_e_atualizar_estoque_def salvar_passos_def
      atualizar_estoque_def produto_save_def movimentacao_save_def Let_def)

subsection \<open>Withdrawals in flight at the same time\<close>

text \<open>
  Claim C8, as amended. For any withdrawal requests served at the same time, in any
  interleaving of their reads and their transactions, a store without negative quantities
  stays without negative quantities. When the requests are served one after the other,
  each from its read to its commit, the units withdrawn from a product are what its stock
  went down by, so at most the units that were in stock. The sufficiency check runs on
  the product as read before the transaction; the transaction holds the update of the
  product and the insertion of the movement.
\<close>

theorem C8_saidas_concorrentes:
  "(estoque_nao_negativo db \<longrightarrow> estoque_nao_negativo (fst (executar rs evs (db, fs))))
   \<and> (chaves_coerentes db \<and> estoque_nao_negativo db \<and> produtos db i = Some p \<longrightarrow>
        (\<exists>p'. produtos (atender_em_serie rs db) i = Some p'
           \<and> 0 \<le> quantidade_atual p'
           \<and> total_saidas i (atender_em_serie rs db) - total_saidas i db
               = quantidade_atual p - quantidade_atual p'
           \<and> total_saidas i (atender_em_serie rs db) - total_saidas i db
               \<le> quantidade_atual p))"
proof (intro conjI impI)
  assume "estoque_nao_negativo db"
  then show "estoque_nao_negativo (fst (executar rs evs (db, fs)))"
    using executar_nao_negativo[of "(db, fs)" rs evs] by simp
next
  assume h: "chaves_coerentes db \<and> estoque_nao_negativo db \<and> produtos db i = Some p"
  let ?db' = "atender_em_serie rs db"
  from h atender_em_serie_efeito[of db rs i] have sal: "saldo i ?db' = saldo i db" by simp
  with h obtain p' where p': "produtos ?db' i = Some p'"
    and eq: "quantidade_atual p' + total_saidas i ?db' = quantidade_atual p + total_saidas i db"
    by (auto simp: saldo_def)
  from h atender_em_serie_nao_negativo[of db rs] p' have "0 \<le> quantidade_atual p'"
    by (auto simp: estoque_nao_negativo_def)
  with p' eq show "\<exists>p'. produtos ?db' i = Some p' \<and> 0 \<le> quantidade_atual p'
      \<and> total_saidas i ?db' - total_saidas i db = quantidade_atual p - quantidade_atual p'
      \<and> total_saidas i ?db' - total_saidas i db \<le> quantidade_atual p"
    by auto
qed

text \<open>
  The two requests of 30 units against the 45 in stock: interleaved, the quantity stays
  non-negative; in series, the second is refused and 30 units are withdrawn.
\<close>

theorem C8_witness:
  "estoque_nao_negativo db_exemplo \<and> chaves_coerentes db_exemplo
   \<and> produtos db_exemplo 2 = Some prod2
   \<and> estoque_nao_negativo
        (fst (executar dois_pedidos leituras_primeiro (db_exemplo, [Aguardando, Aguardando])))
   \<and> map_option quantidade_atual (produtos (atender_em_serie dois_pedidos db_exemplo) 2)
       = Some 15
   \<and> total_saidas 2 (atender_em_serie dois_pedidos db_exemplo) = 30
   \<and> total_saidas 2 (atender_em_serie dois_pedidos db_exemplo) - total_saidas 2 db_exemplo
       \<le> quantidade_atual prod2"
proof -
  have e: "estoque_nao_negativo db_exemplo"
    by (simp add: estoque_nao_negativo_def db_exemplo_def prod2_def)
  have c: "chaves_coerentes db_exemplo"
    by (simp add: chaves_coerentes_def db_exemplo_def prod2_def)
  have p: "produtos db_exemplo 2 = Some prod2"
    by (simp add: db_exemplo_def)
  have v: "map_option quantidade_atual
             (produtos (atender_em_serie dois_pedidos db_exemplo) 2) = Some 15"
    "total_saidas 2 (atender_em_serie dois_pedidos db_exemplo) = 30"
    by (simp_all add: unfold_run)
  show ?thesis
    using C8_saidas_concorrentes[where db = db_exemplo and rs = dois_pedidos
        and evs = leituras_primeiro and fs = "[Aguardando, Aguardando]"
        and i = 2 and p = prod2] e c p v
    by auto
qed

text \<open>
  Claim C8 as stated bounds the units withdrawn by the units in stock. The two requests of
  30 units against the 45 in stock, both read before either transaction runs: both pass
  the check, both are recorded, 60 units are withdrawn in total and the stock ends at 15.
\<close>

theorem C8_counterexample:
  "(case executar dois_pedidos leituras_primeiro (db_exemplo, [Aguardando, Aguardando]) of
      (db', fs') \<Rightarrow>
        fs' = [Terminado Redirect, Terminado Redirect]
        \<and> map_option quantidade_atual (produtos db_exemplo 2) = Some 45
        \<and> total_saidas 2 db_exemplo = 0
        \<and> total_saidas 2 db' = 60
        \<and> \<not> total_saidas 2 db' \<le> 45
        \<and> map_option quantidade_atual (produtos db' 2) = Some 15)"
  by (simp add: unfold_run)

subsection \<open>Movement records already stored\<close>




subsection \<open>A kind that is none of the three\<close>



end
